theory Spec2Isabelle
  imports Main
begin

section \<open>pydm.data_plugins: discovery and registration of data plugins\<close>

text \<open>
  A shallow embedding of \<^verbatim>\<open>pydm/data_plugins/__init__.py\<close>: the registry
  \<^verbatim>\<open>plugin_modules\<close>, \<^verbatim>\<open>add_plugin\<close>,
  \<^verbatim>\<open>load_plugins_from_path\<close> and the module's top-level code.
  The module is written for POSIX here: \<^verbatim>\<open>os.path.sep\<close> is \<open>/\<close>.
  Python 3 scoping is assumed (the variable of a list comprehension does not leak).
\<close>

subsection \<open>Python values the module handles\<close>

text \<open>
  A class object. \<open>cls_id\<close> is the object's identity (\<^verbatim>\<open>id(cls)\<close>): two
  distinct class objects differ in it, so equality of the records is the identity test
  \<^verbatim>\<open>is\<close>, and also \<^verbatim>\<open>==\<close> and \<^verbatim>\<open>!=\<close>, which
  classes do not override. \<open>mro\<close> lists the identities of the class and all its
  base classes; \<open>protocol\<close> is the class attribute, \<open>None\<close> for Python's
  \<^verbatim>\<open>None\<close>.
\<close>

record pyclass =
  cls_id :: nat
  cls_name :: string
  mro :: "nat list"
  protocol :: "string option"

text \<open>The base class \<^verbatim>\<open>PyDMPlugin\<close> of \<^verbatim>\<open>plugin.py\<close>:
  its \<^verbatim>\<open>protocol\<close> is \<^verbatim>\<open>None\<close>.\<close>

definition PyDMPlugin :: pyclass where
  "PyDMPlugin = \<lparr>cls_id = 0, cls_name = ''PyDMPlugin'', mro = [0], protocol = None\<rparr>"

datatype pyobj = Class pyclass | NonClass string

text \<open>A loaded module, as \<^verbatim>\<open>inspect.getmembers\<close> lists it: pairs of a
  member's name and its value.\<close>

type_synonym pymodule = "(string \<times> pyobj) list"

fun isclass :: "pyobj \<Rightarrow> bool" where
  "isclass (Class c) = True"
| "isclass (NonClass v) = False"

fun issubclass :: "pyobj \<Rightarrow> pyclass \<Rightarrow> bool" where
  "issubclass (Class c) b = (cls_id b \<in> set (mro c))"
| "issubclass (NonClass v) b = False"

text \<open>The class a member is; the comprehension of line 73 reads it only for members that
  passed \<open>isclass\<close>.\<close>

fun the_class :: "pyobj \<Rightarrow> pyclass" where
  "the_class (Class c) = c"
| "the_class (NonClass v) = PyDMPlugin"

text \<open>What a raise carries: an instance of \<^verbatim>\<open>Exception\<close> (SyntaxError,
  ImportError, ...), which \<^verbatim>\<open>except Exception\<close> catches, or of another
  \<^verbatim>\<open>BaseException\<close> (SystemExit, KeyboardInterrupt), which it does not.\<close>

datatype raised = Exception string | BaseException string

datatype load_result = Loaded pymodule | Raises raised

datatype error = UnboundLocalError | Propagated raised

subsection \<open>Strings and paths\<close>

definition startswith :: "string \<Rightarrow> string \<Rightarrow> bool" where
  "startswith s p = (take (length p) s = p)"

definition endswith :: "string \<Rightarrow> string \<Rightarrow> bool" where
  "endswith s p = (length p \<le> length s \<and> drop (length s - length p) s = p)"

text \<open>\<^verbatim>\<open>s.split(c)\<close> for a separator of one character. The result is
  never empty, so its \<open>case\<close> on the pieces of the rest always takes the first
  branch.\<close>

fun split_str :: "char \<Rightarrow> string \<Rightarrow> string list" where
  "split_str c [] = [[]]"
| "split_str c (x # xs) =
     (if x = c then [] # split_str c xs
      else (case split_str c xs of w # ws \<Rightarrow> (x # w) # ws | [] \<Rightarrow> [[x]]))"

definition os_path_sep :: char where
  "os_path_sep = CHR ''/''"

text \<open>\<^verbatim>\<open>os.path.join(a, b)\<close> of posixpath.\<close>

definition os_path_join :: "string \<Rightarrow> string \<Rightarrow> string" where
  "os_path_join a b =
     (if startswith b [os_path_sep] then b
      else if a = [] \<or> endswith a [os_path_sep] then a @ b
      else a @ [os_path_sep] @ b)"

subsection \<open>The file system and \<^verbatim>\<open>os.walk\<close>\<close>

text \<open>A directory: the names of its files and its subdirectories by name.\<close>

datatype dir = Dir (dir_files: "string list") (dir_subdirs: "(string \<times> dir) list")

text \<open>\<^verbatim>\<open>os.walk(top)\<close>, top-down: the triple of the directory itself, then the
  walk of each subdirectory in turn. The caller never prunes the list of subdirectories.\<close>

fun walk_dir :: "string \<Rightarrow> dir \<Rightarrow> (string \<times> string list \<times> string list) list" where
  "walk_dir path (Dir files subs) =
     (path, map fst subs, files) #
     concat (map (\<lambda>nd. walk_dir (os_path_join path (fst nd)) (snd nd)) subs)"

subsection \<open>Global state: the registry, the log, \<^verbatim>\<open>sys.path\<close>\<close>

text \<open>An event of the log is a call of a method of \<^verbatim>\<open>logger\<close> with its
  arguments, named by level and message. What the handlers make of it is not modelled
  (the messages of lines 69 and 82 carry \<^verbatim>\<open>{}\<close> placeholders, which the logging
  module does not fill).\<close>

datatype log_event =
    Info_Banner string
  | Info_Looking string
  | Info_Trying string
  | Exception_Unable string raised
  | Warning_MoreThanOneSubclass string string
  | Warning_MoreThanOnePlugin "string option"
  | Warning_Replacing pyclass pyclass "string option"

fun is_warning :: "log_event \<Rightarrow> bool" where
  "is_warning (Warning_MoreThanOneSubclass f c) = True"
| "is_warning (Warning_MoreThanOnePlugin p) = True"
| "is_warning (Warning_Replacing a b p) = True"
| "is_warning e = False"

text \<open>The keys of \<^verbatim>\<open>plugin_modules\<close> are values of the
  \<^verbatim>\<open>protocol\<close> attribute: a string or \<^verbatim>\<open>None\<close>.\<close>

type_synonym registry = "string option \<rightharpoonup> pyclass"

text \<open>
  \<open>uuid_calls\<close> counts the calls of \<^verbatim>\<open>uuid.uuid4\<close> so far.
  \<open>add_plugin_calls\<close> is no variable of the program: it is the history of the calls
  of \<^verbatim>\<open>add_plugin\<close>, their arguments in order, kept so that a theorem can speak
  of the registrations made during a call. No line of the module reads it, and a runtime
  that stands for real files does not depend on it.
\<close>

record state =
  plugin_modules :: registry
  logger :: "log_event list"
  sys_path :: "string list"
  uuid_calls :: nat
  add_plugin_calls :: "pyclass list"

definition emit :: "log_event \<Rightarrow> state \<Rightarrow> state" where
  "emit e st = st\<lparr>logger := logger st @ [e]\<rparr>"

text \<open>The local variables of \<^verbatim>\<open>load_plugins_from_path\<close> that live across
  iterations; \<open>module = None\<close> is the variable not yet bound.\<close>

record locals =
  added_plugins :: registry
  module :: "pymodule option"

subsection \<open>The runtime the module runs in\<close>

text \<open>
  \<open>filesystem\<close> gives the directory at a path (\<open>None\<close>: no directory there, and
  \<^verbatim>\<open>os.walk\<close> yields nothing). \<open>uuid4\<close> gives the name that the \<open>n\<close>-th
  call of \<^verbatim>\<open>str(uuid.uuid4())\<close> returns. \<open>load_source\<close> is what
  \<^verbatim>\<open>imp.load_source\<close> does in a state with a module name and the path of a
  file: executing the file reads the state (its imports go through
  \<^verbatim>\<open>sys.path\<close>), and every execution makes class objects of its own, so the
  result of loading one path twice need not be the same. Executing a file is taken not to
  write \<^verbatim>\<open>plugin_modules\<close>, \<^verbatim>\<open>sys.path\<close> or the log.
  \<open>set_iteration\<close> is the order in which \<^verbatim>\<open>list(set(xs))\<close> lists the
  elements of \<open>xs\<close>: Python leaves it open, CPython orders class objects by a
  hash of their address.
\<close>

record runtime =
  filesystem :: "string \<Rightarrow> dir option"
  uuid4 :: "nat \<Rightarrow> string"
  load_source :: "state \<Rightarrow> string \<Rightarrow> string \<Rightarrow> load_result"
  set_iteration :: "pyclass list \<Rightarrow> pyclass list"

text \<open>What every Python runtime guarantees of \<^verbatim>\<open>list(set(xs))\<close>: the same
  elements, each once.\<close>

definition set_iteration_ok :: "runtime \<Rightarrow> bool" where
  "set_iteration_ok rt =
     (\<forall>xs. set (set_iteration rt xs) = set xs \<and> distinct (set_iteration rt xs))"

definition os_walk :: "runtime \<Rightarrow> string \<Rightarrow> (string \<times> string list \<times> string list) list" where
  "os_walk rt path = (case filesystem rt path of None \<Rightarrow> [] | Some d \<Rightarrow> walk_dir path d)"

subsection \<open>\<^verbatim>\<open>add_plugin\<close>\<close>

text \<open>Lines 27 to 31: the warning when the protocol is a key already, then the
  assignment, with which the call enters the history.\<close>

definition add_plugin :: "pyclass \<Rightarrow> state \<Rightarrow> state" where
  "add_plugin plugin st =
     (let st1 = (case plugin_modules st (protocol plugin) of
                   Some old \<Rightarrow> emit (Warning_Replacing plugin old (protocol plugin)) st
                 | None \<Rightarrow> st)
      in st1\<lparr>plugin_modules := (plugin_modules st1)(protocol plugin \<mapsto> plugin),
             add_plugin_calls := add_plugin_calls st1 @ [plugin]\<rparr>)"

subsection \<open>\<^verbatim>\<open>load_plugins_from_path\<close>\<close>

definition DATA_PLUGIN_TOKEN :: string where
  "DATA_PLUGIN_TOKEN = ''_plugin.py''"

text \<open>A \<^verbatim>\<open>for\<close> loop whose body may raise: the first raise ends the loop.\<close>

fun for_each ::
  "('a \<Rightarrow> locals \<Rightarrow> state \<Rightarrow> (error + locals) \<times> state) \<Rightarrow>
   'a list \<Rightarrow> locals \<Rightarrow> state \<Rightarrow> (error + locals) \<times> state" where
  "for_each body [] lv st = (Inr lv, st)"
| "for_each body (x # xs) lv st =
     (case body x lv st of
        (Inl e, st1) \<Rightarrow> (Inl e, st1)
      | (Inr lv1, st1) \<Rightarrow> for_each body xs lv1 st1)"

text \<open>Lines 63 to 65: the state in which \<^verbatim>\<open>imp.load_source\<close> is called, after
  the log entry, the append to \<^verbatim>\<open>sys.path\<close> and the draw of the module
  name.\<close>

definition before_load :: "string \<Rightarrow> string \<Rightarrow> state \<Rightarrow> state" where
  "before_load root name st =
     (emit (Info_Trying name) st)
       \<lparr>sys_path := sys_path st @ [root], uuid_calls := Suc (uuid_calls st)\<rparr>"

text \<open>Lines 62 to 72: the \<^verbatim>\<open>try\<close> block. The file is loaded under the name
  just drawn. An \<^verbatim>\<open>Exception\<close> is logged and execution goes on after the
  block, \<^verbatim>\<open>module\<close> as it was.\<close>

definition try_load ::
  "runtime \<Rightarrow> string \<Rightarrow> string \<Rightarrow> locals \<Rightarrow> state \<Rightarrow> (error + locals) \<times> state" where
  "try_load rt root name lv st =
     (let st1 = before_load root name st;
          temp_name = uuid4 rt (uuid_calls st)
      in case load_source rt st1 temp_name (os_path_join root name) of
           Loaded m \<Rightarrow> (Inr (lv\<lparr>module := Some m\<rparr>), st1)
         | Raises (Exception e) \<Rightarrow> (Inr lv, emit (Exception_Unable name (Exception e)) st1)
         | Raises (BaseException e) \<Rightarrow> (Inl (Propagated (BaseException e)), st1))"

text \<open>Lines 73 to 76: the list comprehension over the module's members.\<close>

definition plugin_classes :: "pymodule \<Rightarrow> pyclass list" where
  "plugin_classes m =
     map (the_class \<circ> snd)
       (filter (\<lambda>(name, obj). isclass obj \<and> issubclass obj PyDMPlugin
                 \<and> the_class obj \<noteq> PyDMPlugin) m)"

text \<open>Lines 77 to 97, for the module \<open>m\<close> that \<^verbatim>\<open>module\<close> is bound to.\<close>

definition register_from ::
  "runtime \<Rightarrow> string \<Rightarrow> pymodule \<Rightarrow> locals \<Rightarrow> state \<Rightarrow> locals \<times> state" where
  "register_from rt name m lv st =
     (let classes = set_iteration rt (plugin_classes m) in
      if length classes = 0 then (lv, st)
      else
        let st1 = (if length classes > 1
                   then emit (Warning_MoreThanOneSubclass name (cls_name (hd classes))) st
                   else st);
            plugin = hd classes
        in if protocol plugin \<noteq> None then
             let st2 = (if plugin_modules st1 (protocol plugin) \<noteq> Some plugin
                        then emit (Warning_MoreThanOnePlugin (protocol plugin)) st1
                        else st1);
                 st3 = add_plugin plugin st2
             in (lv\<lparr>added_plugins := (added_plugins lv)(protocol plugin \<mapsto> plugin)\<rparr>, st3)
           else (lv, st1))"

text \<open>Lines 61 to 97: the body of the loop over the files of one directory. The
  \<^verbatim>\<open>token\<close> parameter is not read: the test is against the global
  \<^verbatim>\<open>DATA_PLUGIN_TOKEN\<close>.\<close>

definition file_body ::
  "runtime \<Rightarrow> string \<Rightarrow> string \<Rightarrow> locals \<Rightarrow> state \<Rightarrow> (error + locals) \<times> state" where
  "file_body rt root name lv st =
     (if endswith name DATA_PLUGIN_TOKEN then
        (case try_load rt root name lv st of
           (Inl e, st1) \<Rightarrow> (Inl e, st1)
         | (Inr lv1, st1) \<Rightarrow>
             (case module lv1 of
                None \<Rightarrow> (Inl UnboundLocalError, st1)
              | Some m \<Rightarrow> (case register_from rt name m lv1 st1 of
                            (lv2, st2) \<Rightarrow> (Inr lv2, st2))))
      else (Inr lv, st))"

text \<open>Lines 55 to 97: the body of the loop over the triples of \<^verbatim>\<open>os.walk\<close>.\<close>

definition walk_body ::
  "runtime \<Rightarrow> string \<times> string list \<times> string list \<Rightarrow> locals \<Rightarrow> state \<Rightarrow>
   (error + locals) \<times> state" where
  "walk_body rt entry lv st =
     (case entry of (root, dirs, files) \<Rightarrow>
        if startswith (last (split_str os_path_sep root)) ''__'' then (Inr lv, st)
        else for_each (file_body rt root) files lv (emit (Info_Looking root) st))"

definition location_body ::
  "runtime \<Rightarrow> string \<Rightarrow> locals \<Rightarrow> state \<Rightarrow> (error + locals) \<times> state" where
  "location_body rt loc lv st = for_each (walk_body rt) (os_walk rt loc) lv st"

definition load_plugins_from_path ::
  "runtime \<Rightarrow> string list \<Rightarrow> string \<Rightarrow> state \<Rightarrow> (error + registry) \<times> state" where
  "load_plugins_from_path rt locations token st =
     (case for_each (location_body rt) locations
             \<lparr>added_plugins = Map.empty, module = None\<rparr> st of
        (Inl e, st1) \<Rightarrow> (Inl e, st1)
      | (Inr lv, st1) \<Rightarrow> (Inr (added_plugins lv), st1))"

subsection \<open>The module's top-level code\<close>

text \<open>Lines 107 to 115: \<open>getenv\<close> is the value of
  \<^verbatim>\<open>PYDM_DATA_PLUGINS_PATH\<close> (\<open>None\<close> when unset), \<open>pathsep\<close> is
  \<^verbatim>\<open>os.pathsep\<close> and \<open>plugin_dir\<close> the directory of the module's file.\<close>

definition startup_locations :: "string option \<Rightarrow> char \<Rightarrow> string \<Rightarrow> string list" where
  "startup_locations getenv pathsep plugin_dir =
     (let locations = (case getenv of None \<Rightarrow> [] | Some path \<Rightarrow> split_str pathsep path)
      in plugin_dir # locations)"

definition module_top_level ::
  "runtime \<Rightarrow> string option \<Rightarrow> char \<Rightarrow> string \<Rightarrow> state \<Rightarrow> (error + registry) \<times> state" where
  "module_top_level rt getenv pathsep plugin_dir st =
     (let st1 = emit (Info_Banner (replicate 80 (CHR ''*''))) st;
          st2 = emit (Info_Banner ''* Loading PyDM Data Plugins'') st1;
          st3 = emit (Info_Banner (replicate 80 (CHR ''*''))) st2
      in load_plugins_from_path rt (startup_locations getenv pathsep plugin_dir)
           DATA_PLUGIN_TOKEN st3)"

text \<open>The state at import: \<^verbatim>\<open>plugin_modules = {}\<close>, nothing logged, no
  name drawn.\<close>

definition initial_state :: "string list \<Rightarrow> state" where
  "initial_state sp =
     \<lparr>plugin_modules = Map.empty, logger = [], sys_path = sp, uuid_calls = 0,
      add_plugin_calls = []\<rparr>"

subsection \<open>Example runs\<close>

text \<open>Plugin classes as a plugin file defines them, each a subclass of
  \<^verbatim>\<open>PyDMPlugin\<close>.\<close>

definition good_plugin :: pyclass where
  "good_plugin = \<lparr>cls_id = 1, cls_name = ''GoodPlugin'', mro = [1, 0], protocol = Some ''good''\<rparr>"

definition alpha_plugin :: pyclass where
  "alpha_plugin = \<lparr>cls_id = 2, cls_name = ''AlphaPlugin'', mro = [2, 0], protocol = Some ''alpha''\<rparr>"

definition beta_plugin :: pyclass where
  "beta_plugin = \<lparr>cls_id = 3, cls_name = ''BetaPlugin'', mro = [3, 0], protocol = Some ''beta''\<rparr>"

definition x1_plugin :: pyclass where
  "x1_plugin = \<lparr>cls_id = 4, cls_name = ''FirstX'', mro = [4, 0], protocol = Some ''x''\<rparr>"

definition x2_plugin :: pyclass where
  "x2_plugin = \<lparr>cls_id = 5, cls_name = ''SecondX'', mro = [5, 0], protocol = Some ''x''\<rparr>"

definition null_plugin :: pyclass where
  "null_plugin = \<lparr>cls_id = 6, cls_name = ''NullPlugin'', mro = [6, 0], protocol = None\<rparr>"

text \<open>The members of a plugin file that imports \<^verbatim>\<open>PyDMPlugin\<close> and
  \<^verbatim>\<open>os\<close> and defines the classes \<open>cs\<close>.\<close>

definition module_defining :: "pyclass list \<Rightarrow> pymodule" where
  "module_defining cs =
     map (\<lambda>c. (cls_name c, Class c)) cs @
     [(''PyDMPlugin'', Class PyDMPlugin), (''os'', NonClass ''<module os>'')]"

text \<open>Module names for the examples: the \<open>n\<close>-th is \<open>n\<close> letters long.\<close>

definition example_uuid4 :: "nat \<Rightarrow> string" where
  "example_uuid4 n = replicate (Suc n) (CHR ''u'')"

text \<open>One location \<^verbatim>\<open>plugins\<close> whose only candidate file has a syntax
  error.\<close>

definition rt_broken_only :: runtime where
  "rt_broken_only =
     \<lparr>filesystem = (\<lambda>p. if p = ''plugins'' then Some (Dir [''broken_plugin.py''] []) else None),
      uuid4 = example_uuid4,
      load_source = (\<lambda>st temp_name p. Raises (Exception ''SyntaxError'')),
      set_iteration = remdups\<rparr>"

text \<open>A valid plugin file, a file with a syntax error after it, and a file that is no
  candidate.\<close>

definition rt_good_then_broken :: runtime where
  "rt_good_then_broken =
     \<lparr>filesystem = (\<lambda>p. if p = ''plugins''
         then Some (Dir [''good_plugin.py'', ''README.txt'', ''broken_plugin.py''] [])
         else None),
      uuid4 = example_uuid4,
      load_source = (\<lambda>st temp_name p. if p = ''plugins/good_plugin.py''
         then Loaded (module_defining [good_plugin])
         else Raises (Exception ''SyntaxError'')),
      set_iteration = remdups\<rparr>"

text \<open>A directory \<^verbatim>\<open>__pycache__\<close> with a candidate file in it and another in
  its subdirectory \<^verbatim>\<open>sub\<close>.\<close>

definition rt_reserved_dir :: runtime where
  "rt_reserved_dir =
     \<lparr>filesystem = (\<lambda>p. if p = ''plugins''
         then Some (Dir [] [(''__pycache__'',
                Dir [''alpha_plugin.py''] [(''sub'', Dir [''beta_plugin.py''] [])])])
         else None),
      uuid4 = example_uuid4,
      load_source = (\<lambda>st temp_name p. if p = ''plugins/__pycache__/alpha_plugin.py''
         then Loaded (module_defining [alpha_plugin])
         else if p = ''plugins/__pycache__/sub/beta_plugin.py''
         then Loaded (module_defining [beta_plugin])
         else Raises (Exception ''FileNotFoundError'')),
      set_iteration = remdups\<rparr>"

text \<open>One file that defines two plugin classes, in a run of the interpreter where the
  set lists \<^verbatim>\<open>BetaPlugin\<close> before \<^verbatim>\<open>AlphaPlugin\<close>.\<close>

definition rt_two_classes :: runtime where
  "rt_two_classes =
     \<lparr>filesystem = (\<lambda>p. if p = ''plugins'' then Some (Dir [''both_plugin.py''] []) else None),
      uuid4 = example_uuid4,
      load_source = (\<lambda>st temp_name p. Loaded (module_defining [alpha_plugin, beta_plugin])),
      set_iteration = (\<lambda>xs. rev (remdups xs))\<rparr>"

text \<open>Two files, each defining a plugin class for the protocol \<^verbatim>\<open>x\<close>.\<close>

definition rt_same_protocol :: runtime where
  "rt_same_protocol =
     \<lparr>filesystem = (\<lambda>p. if p = ''plugins''
         then Some (Dir [''x1_plugin.py'', ''x2_plugin.py''] []) else None),
      uuid4 = example_uuid4,
      load_source = (\<lambda>st temp_name p. if p = ''plugins/x1_plugin.py''
         then Loaded (module_defining [x1_plugin])
         else Loaded (module_defining [x2_plugin])),
      set_iteration = remdups\<rparr>"

text \<open>A location given with a trailing separator, \<^verbatim>\<open>__res/\<close>, holding a
  valid plugin file.\<close>

definition rt_trailing_separator :: runtime where
  "rt_trailing_separator =
     \<lparr>filesystem = (\<lambda>p. if p = ''__res/'' then Some (Dir [''good_plugin.py''] []) else None),
      uuid4 = example_uuid4,
      load_source = (\<lambda>st temp_name p. Loaded (module_defining [good_plugin])),
      set_iteration = remdups\<rparr>"

text \<open>One valid plugin file whose every execution makes a new class object: the
  identity of the class is taken from the count of module names drawn.\<close>

definition rt_fresh_classes :: runtime where
  "rt_fresh_classes =
     \<lparr>filesystem = (\<lambda>p. if p = ''plugins'' then Some (Dir [''good_plugin.py''] []) else None),
      uuid4 = example_uuid4,
      load_source = (\<lambda>st temp_name p.
         Loaded (module_defining
           [\<lparr>cls_id = 100 + uuid_calls st, cls_name = ''GoodPlugin'',
             mro = [100 + uuid_calls st, 0], protocol = Some ''good''\<rparr>])),
      set_iteration = remdups\<rparr>"

text \<open>A file whose only plugin class has no protocol, and a valid file after it.\<close>

definition rt_null_protocol :: runtime where
  "rt_null_protocol =
     \<lparr>filesystem = (\<lambda>p. if p = ''plugins''
         then Some (Dir [''null_plugin.py'', ''good_plugin.py''] []) else None),
      uuid4 = example_uuid4,
      load_source = (\<lambda>st temp_name p. if p = ''plugins/null_plugin.py''
         then Loaded (module_defining [null_plugin])
         else Loaded (module_defining [good_plugin])),
      set_iteration = remdups\<rparr>"

section \<open>Properties\<close>

subsection \<open>Loops and their invariants\<close>


lemma for_each_preserves:
  assumes step: "\<And>x lv st. x \<in> set xs \<Longrightarrow> P (Inr lv) st \<Longrightarrow>
                   P (fst (body x lv st)) (snd (body x lv st))"
    and init: "P (Inr lv) st"
  shows "P (fst (for_each body xs lv st)) (snd (for_each body xs lv st))"
  using assms
proof (induction xs arbitrary: lv st)
  case Nil
  then show ?case by simp
next
  case (Cons x xs)
  have here: "P (fst (body x lv st)) (snd (body x lv st))"
    using Cons.prems by simp
  show ?case
  proof (cases "body x lv st")
    case (Pair r st1)
    show ?thesis
    proof (cases r)
      case (Inl e)
      with Pair here show ?thesis by simp
    next
      case (Inr lv1)
      have "P (fst (for_each body xs lv1 st1)) (snd (for_each body xs lv1 st1))"
        using Cons.IH [of lv1 st1] Cons.prems(1) here Pair Inr by simp
      with Pair Inr show ?thesis by simp
    qed
  qed
qed

lemma walk_body_preserves:
  assumes fstep: "\<And>name lv st. \<not> startswith (last (split_str os_path_sep (fst entry))) ''__'' \<Longrightarrow> P (Inr lv) st \<Longrightarrow>
                   P (fst (file_body rt (fst entry) name lv st)) (snd (file_body rt (fst entry) name lv st))"
    and log: "\<And>e lv st. P (Inr lv) st \<Longrightarrow> P (Inr lv) (emit e st)"
    and init: "P (Inr lv) st"
  shows "P (fst (walk_body rt entry lv st)) (snd (walk_body rt entry lv st))"
proof (cases entry)
  case (fields root dirs files)
  show ?thesis
  proof (cases "startswith (last (split_str os_path_sep root)) ''__''")
    case True
    with fields init show ?thesis by (simp add: walk_body_def)
  next
    case False
    have "P (fst (for_each (file_body rt root) files lv (emit (Info_Looking root) st)))
            (snd (for_each (file_body rt root) files lv (emit (Info_Looking root) st)))"
      by (rule for_each_preserves [where P = P]) (use fstep False fields log [OF init] in auto)
    with False fields show ?thesis by (simp add: walk_body_def)
  qed
qed

lemma location_body_preserves:
  assumes fstep: "\<And>root name lv st. \<not> startswith (last (split_str os_path_sep root)) ''__'' \<Longrightarrow> P (Inr lv) st \<Longrightarrow>
                   P (fst (file_body rt root name lv st)) (snd (file_body rt root name lv st))"
    and log: "\<And>e lv st. P (Inr lv) st \<Longrightarrow> P (Inr lv) (emit e st)"
    and init: "P (Inr lv) st"
  shows "P (fst (location_body rt loc lv st)) (snd (location_body rt loc lv st))"
proof -
  have "P (fst (walk_body rt entry lv2 st2)) (snd (walk_body rt entry lv2 st2))"
    if "P (Inr lv2) st2" for entry lv2 st2
    by (rule walk_body_preserves [where P = P]) (use that fstep log in auto)
  then show ?thesis
    unfolding location_body_def
    by (rule for_each_preserves [where P = P]) (use init in auto)
qed

lemma scan_preserves:
  assumes fstep: "\<And>root name lv st. \<not> startswith (last (split_str os_path_sep root)) ''__'' \<Longrightarrow> P (Inr lv) st \<Longrightarrow>
                   P (fst (file_body rt root name lv st)) (snd (file_body rt root name lv st))"
    and log: "\<And>e lv st. P (Inr lv) st \<Longrightarrow> P (Inr lv) (emit e st)"
    and init: "P (Inr lv) st"
  shows "P (fst (for_each (location_body rt) locs lv st))
           (snd (for_each (location_body rt) locs lv st))"
proof -
  have "P (fst (location_body rt loc lv1 st1)) (snd (location_body rt loc lv1 st1))"
    if "P (Inr lv1) st1" for loc lv1 st1
    by (rule location_body_preserves [where P = P]) (use that fstep log in auto)
  then show ?thesis
    by (rule for_each_preserves [where P = P]) (use init in auto)
qed


lemma sys_path_emit [simp]: "sys_path (emit e st) = sys_path st"
  by (simp add: emit_def)

lemma plugin_modules_emit [simp]: "plugin_modules (emit e st) = plugin_modules st"
  by (simp add: emit_def)

lemma logger_emit [simp]: "logger (emit e st) = logger st @ [e]"
  by (simp add: emit_def)

lemma uuid_calls_emit [simp]: "uuid_calls (emit e st) = uuid_calls st"
  by (simp add: emit_def)

lemma add_plugin_calls_emit [simp]: "add_plugin_calls (emit e st) = add_plugin_calls st"
  by (simp add: emit_def)

lemma sys_path_add_plugin [simp]: "sys_path (add_plugin c st) = sys_path st"
  by (simp add: add_plugin_def Let_def split: option.splits)

lemma plugin_modules_add_plugin [simp]:
  "plugin_modules (add_plugin c st) = (plugin_modules st)(protocol c \<mapsto> c)"
  by (simp add: add_plugin_def Let_def split: option.splits)

lemma add_plugin_calls_add_plugin [simp]:
  "add_plugin_calls (add_plugin c st) = add_plugin_calls st @ [c]"
  by (simp add: add_plugin_def Let_def split: option.splits)

lemma logger_add_plugin:
  "logger (add_plugin c st) =
     logger st @ (case plugin_modules st (protocol c) of
                    None \<Rightarrow> [] | Some old \<Rightarrow> [Warning_Replacing c old (protocol c)])"
  by (simp add: add_plugin_def Let_def split: option.splits)

lemma sys_path_before_load [simp]: "sys_path (before_load root name st) = sys_path st @ [root]"
  by (simp add: before_load_def)

lemma plugin_modules_before_load [simp]:
  "plugin_modules (before_load root name st) = plugin_modules st"
  by (simp add: before_load_def)

lemma add_plugin_calls_before_load [simp]:
  "add_plugin_calls (before_load root name st) = add_plugin_calls st"
  by (simp add: before_load_def)

lemma logger_before_load [simp]:
  "logger (before_load root name st) = logger st @ [Info_Trying name]"
  by (simp add: before_load_def)

text \<open>What one pass over lines 77 to 97 does, by the list the set yields.\<close>

lemma register_from_none:
  "set_iteration rt (plugin_classes m) = [] \<Longrightarrow> register_from rt name m lv st = (lv, st)"
  by (simp add: register_from_def)

lemma register_from_null:
  "set_iteration rt (plugin_classes m) = c # cs \<Longrightarrow> protocol c = None \<Longrightarrow>
   register_from rt name m lv st =
     (lv, if cs = [] then st else emit (Warning_MoreThanOneSubclass name (cls_name c)) st)"
  by (simp add: register_from_def)

lemma register_from_some:
  assumes "set_iteration rt (plugin_classes m) = c # cs" and "protocol c = Some p"
  shows "added_plugins (fst (register_from rt name m lv st)) = (added_plugins lv)(Some p \<mapsto> c)"
    and "module (fst (register_from rt name m lv st)) = module lv"
    and "plugin_modules (snd (register_from rt name m lv st)) = (plugin_modules st)(Some p \<mapsto> c)"
    and "sys_path (snd (register_from rt name m lv st)) = sys_path st"
    and "add_plugin_calls (snd (register_from rt name m lv st)) = add_plugin_calls st @ [c]"
    and "logger (snd (register_from rt name m lv st)) =
           logger st
           @ (if cs = [] then [] else [Warning_MoreThanOneSubclass name (cls_name c)])
           @ (if plugin_modules st (Some p) = Some c then []
              else [Warning_MoreThanOnePlugin (Some p)])
           @ (case plugin_modules st (Some p) of
                None \<Rightarrow> [] | Some old \<Rightarrow> [Warning_Replacing c old (Some p)])"
  using assms by (simp_all add: register_from_def Let_def logger_add_plugin split: option.splits)

lemma register_from_cases:
  "(register_from rt name m lv st = (lv, st)) \<or>
   (\<exists>c cs. set_iteration rt (plugin_classes m) = c # cs \<and> protocol c = None \<and>
      register_from rt name m lv st =
        (lv, if cs = [] then st else emit (Warning_MoreThanOneSubclass name (cls_name c)) st)) \<or>
   (\<exists>c cs p. set_iteration rt (plugin_classes m) = c # cs \<and> protocol c = Some p)"
proof (cases "set_iteration rt (plugin_classes m)")
  case Nil
  then show ?thesis by (simp add: register_from_none)
next
  case (Cons c cs)
  then show ?thesis by (cases "protocol c") (simp_all add: register_from_null)
qed

lemma register_from_sys_path [simp]:
  "sys_path (snd (register_from rt name m lv st)) = sys_path st"
  using register_from_cases [of rt name m lv st]
  by (auto simp: register_from_some)

lemma register_from_module [simp]:
  "module (fst (register_from rt name m lv st)) = module lv"
  using register_from_cases [of rt name m lv st]
  by (auto simp: register_from_some)

text \<open>The two dictionaries change together, with one call of \<^verbatim>\<open>add_plugin\<close>,
  and never at the key \<^verbatim>\<open>None\<close>.\<close>

lemma register_from_dicts:
  "(added_plugins (fst (register_from rt name m lv st)) = added_plugins lv \<and>
    plugin_modules (snd (register_from rt name m lv st)) = plugin_modules st \<and>
    add_plugin_calls (snd (register_from rt name m lv st)) = add_plugin_calls st) \<or>
   (\<exists>p c. protocol c = Some p \<and>
          added_plugins (fst (register_from rt name m lv st)) = (added_plugins lv)(Some p \<mapsto> c) \<and>
          plugin_modules (snd (register_from rt name m lv st)) = (plugin_modules st)(Some p \<mapsto> c) \<and>
          add_plugin_calls (snd (register_from rt name m lv st)) = add_plugin_calls st @ [c])"
proof (cases "set_iteration rt (plugin_classes m)")
  case Nil
  then show ?thesis by (simp add: register_from_none)
next
  case (Cons c cs)
  show ?thesis
  proof (cases "protocol c")
    case None
    with Cons show ?thesis by (simp add: register_from_null)
  next
    case (Some p)
    with Cons show ?thesis by (auto simp: register_from_some)
  qed
qed

text \<open>The body of the loop over files, case by case.\<close>

lemma file_body_skip:
  "\<not> endswith name DATA_PLUGIN_TOKEN \<Longrightarrow> file_body rt root name lv st = (Inr lv, st)"
  by (simp add: file_body_def)

lemma file_body_loaded:
  assumes "endswith name DATA_PLUGIN_TOKEN"
    and "load_source rt (before_load root name st) (uuid4 rt (uuid_calls st))
        (os_path_join root name) = Loaded m"
  shows "file_body rt root name lv st =
     (Inr (fst (register_from rt name m (lv\<lparr>module := Some m\<rparr>)
                  (before_load root name st))),
      snd (register_from rt name m (lv\<lparr>module := Some m\<rparr>)
                  (before_load root name st)))"
  using assms by (simp add: file_body_def try_load_def split: prod.splits)

lemma file_body_base_exception:
  assumes "endswith name DATA_PLUGIN_TOKEN"
    and "load_source rt (before_load root name st) (uuid4 rt (uuid_calls st))
        (os_path_join root name) = Raises (BaseException e)"
  shows "file_body rt root name lv st =
     (Inl (Propagated (BaseException e)),
      before_load root name st)"
  using assms by (simp add: file_body_def try_load_def)

lemma file_body_exception_unbound:
  assumes "endswith name DATA_PLUGIN_TOKEN"
    and "load_source rt (before_load root name st) (uuid4 rt (uuid_calls st))
        (os_path_join root name) = Raises (Exception e)"
    and "module lv = None"
  shows "file_body rt root name lv st =
     (Inl UnboundLocalError,
      emit (Exception_Unable name (Exception e))
        (before_load root name st))"
  using assms by (simp add: file_body_def try_load_def)

lemma file_body_exception_bound:
  assumes "endswith name DATA_PLUGIN_TOKEN"
    and "load_source rt (before_load root name st) (uuid4 rt (uuid_calls st))
        (os_path_join root name) = Raises (Exception e)"
    and "module lv = Some m"
  shows "file_body rt root name lv st =
     (Inr (fst (register_from rt name m lv
             (emit (Exception_Unable name (Exception e))
               (before_load root name st)))),
      snd (register_from rt name m lv
             (emit (Exception_Unable name (Exception e))
               (before_load root name st))))"
  using assms by (simp add: file_body_def try_load_def split: prod.splits)

lemma file_body_cases:
  obtains (skip) "\<not> endswith name DATA_PLUGIN_TOKEN"
  | (loaded) m where "endswith name DATA_PLUGIN_TOKEN"
      "load_source rt (before_load root name st) (uuid4 rt (uuid_calls st))
        (os_path_join root name) = Loaded m"
  | (base) e where "endswith name DATA_PLUGIN_TOKEN"
      "load_source rt (before_load root name st) (uuid4 rt (uuid_calls st))
        (os_path_join root name) = Raises (BaseException e)"
  | (unbound) e where "endswith name DATA_PLUGIN_TOKEN"
      "load_source rt (before_load root name st) (uuid4 rt (uuid_calls st))
        (os_path_join root name) = Raises (Exception e)" "module lv = None"
  | (bound) e m where "endswith name DATA_PLUGIN_TOKEN"
      "load_source rt (before_load root name st) (uuid4 rt (uuid_calls st))
        (os_path_join root name) = Raises (Exception e)" "module lv = Some m"
proof (cases "endswith name DATA_PLUGIN_TOKEN")
  case False
  then show ?thesis by (rule skip)
next
  case True
  show ?thesis
  proof (cases "load_source rt (before_load root name st) (uuid4 rt (uuid_calls st))
        (os_path_join root name)")
    case (Loaded m)
    with True show ?thesis by (rule loaded)
  next
    case (Raises x)
    show ?thesis
    proof (cases x)
      case (BaseException e)
      with True Raises show ?thesis by (auto intro: base)
    next
      case (Exception e)
      with True Raises show ?thesis by (cases "module lv") (auto intro: unbound bound)
    qed
  qed
qed

text \<open>The two dictionaries change together in the body of the loop over files too,
  whatever it returns.\<close>

lemma file_body_dicts:
  "(case fst (file_body rt root name lv st) of
      Inl e \<Rightarrow>
        plugin_modules (snd (file_body rt root name lv st)) = plugin_modules st \<and>
        add_plugin_calls (snd (file_body rt root name lv st)) = add_plugin_calls st
    | Inr lv' \<Rightarrow>
        (added_plugins lv' = added_plugins lv \<and>
         plugin_modules (snd (file_body rt root name lv st)) = plugin_modules st \<and>
         add_plugin_calls (snd (file_body rt root name lv st)) = add_plugin_calls st) \<or>
        (\<exists>p c. protocol c = Some p \<and>
           added_plugins lv' = (added_plugins lv)(Some p \<mapsto> c) \<and>
           plugin_modules (snd (file_body rt root name lv st)) = (plugin_modules st)(Some p \<mapsto> c) \<and>
           add_plugin_calls (snd (file_body rt root name lv st)) = add_plugin_calls st @ [c]))"
proof (cases rule: file_body_cases [where name = name and rt = rt and root = root and lv = lv and st = st])
  case skip
  then show ?thesis by (simp add: file_body_skip)
next
  case (loaded m)
  show ?thesis
    using register_from_dicts [of rt name m "lv\<lparr>module := Some m\<rparr>" "before_load root name st"]
    by (simp add: file_body_loaded [OF loaded])
next
  case (base e)
  then show ?thesis by (simp add: file_body_base_exception)
next
  case (unbound e)
  then show ?thesis by (simp add: file_body_exception_unbound)
next
  case (bound e m)
  show ?thesis
    using register_from_dicts [of rt name m lv
        "emit (Exception_Unable name (Exception e)) (before_load root name st)"]
    by (simp add: file_body_exception_bound [OF bound])
qed

lemma file_body_sys_path:
  "sys_path (snd (file_body rt root name lv st)) =
     sys_path st @ (if endswith name DATA_PLUGIN_TOKEN then [root] else [])"
proof (cases rule: file_body_cases [where name = name and rt = rt and root = root and lv = lv and st = st])
  case skip
  then show ?thesis by (simp add: file_body_skip)
next
  case (loaded m)
  then show ?thesis by (simp add: file_body_loaded [OF loaded])
next
  case (base e)
  then show ?thesis by (simp add: file_body_base_exception)
next
  case (unbound e)
  then show ?thesis by (simp add: file_body_exception_unbound)
next
  case (bound e m)
  then show ?thesis by (simp add: file_body_exception_bound [OF bound])
qed

text \<open>The invariant of the scan: the registry is what it was at the start,
  overridden by \<^verbatim>\<open>added_plugins\<close>, and neither holds the key
  \<^verbatim>\<open>None\<close> because of the scan.\<close>

lemma scan_dicts:
  assumes "plugin_modules st = reg0 ++ added_plugins lv" and "added_plugins lv None = None"
    and "add_plugin_calls st = calls0 @ calls"
    and "added_plugins lv = map_of (rev (map (\<lambda>c. (protocol c, c)) calls))"
  shows "plugin_modules (snd (for_each (location_body rt) locs lv st)) None = reg0 None \<and>
         (case fst (for_each (location_body rt) locs lv st) of
            Inl e \<Rightarrow> True
          | Inr lv' \<Rightarrow> added_plugins lv' None = None \<and>
              plugin_modules (snd (for_each (location_body rt) locs lv st)) = reg0 ++ added_plugins lv' \<and>
              (\<exists>calls'. add_plugin_calls (snd (for_each (location_body rt) locs lv st)) = calls0 @ calls' \<and>
                 added_plugins lv' = map_of (rev (map (\<lambda>c. (protocol c, c)) calls'))))"
proof -
  define P where "P = (\<lambda>(r :: error + locals) (s :: state).
     plugin_modules s None = reg0 None \<and>
     (case r of Inl e \<Rightarrow> True
      | Inr lv' \<Rightarrow> added_plugins lv' None = None \<and> plugin_modules s = reg0 ++ added_plugins lv' \<and>
          (\<exists>calls'. add_plugin_calls s = calls0 @ calls' \<and>
             added_plugins lv' = map_of (rev (map (\<lambda>c. (protocol c, c)) calls')))))"
  have step: "P (fst (file_body rt root name lv1 st1)) (snd (file_body rt root name lv1 st1))"
    if inv: "P (Inr lv1) st1" for root name lv1 st1
  proof (cases "fst (file_body rt root name lv1 st1)")
    case (Inl e)
    with inv file_body_dicts [of rt root name lv1 st1] show ?thesis
      by (auto simp: P_def)
  next
    case (Inr lv')
    from inv obtain calls1 where
      none: "added_plugins lv1 None = None" and
      reg: "plugin_modules st1 = reg0 ++ added_plugins lv1" and
      at_none: "plugin_modules st1 None = reg0 None" and
      hist: "add_plugin_calls st1 = calls0 @ calls1" and
      added: "added_plugins lv1 = map_of (rev (map (\<lambda>c. (protocol c, c)) calls1))"
      by (auto simp: P_def)
    from Inr file_body_dicts [of rt root name lv1 st1] consider
      (same) "added_plugins lv' = added_plugins lv1"
        "plugin_modules (snd (file_body rt root name lv1 st1)) = plugin_modules st1"
        "add_plugin_calls (snd (file_body rt root name lv1 st1)) = add_plugin_calls st1"
      | (more) p c where "protocol c = Some p"
        "added_plugins lv' = (added_plugins lv1)(Some p \<mapsto> c)"
        "plugin_modules (snd (file_body rt root name lv1 st1)) = (plugin_modules st1)(Some p \<mapsto> c)"
        "add_plugin_calls (snd (file_body rt root name lv1 st1)) = add_plugin_calls st1 @ [c]"
      by auto
    then show ?thesis
    proof cases
      case same
      with Inr none reg at_none hist added show ?thesis
        by (auto simp: P_def)
    next
      case (more p c)
      have "added_plugins lv' = map_of (rev (map (\<lambda>c. (protocol c, c)) (calls1 @ [c])))"
        using more added by simp
      moreover have "add_plugin_calls (snd (file_body rt root name lv1 st1)) = calls0 @ (calls1 @ [c])"
        using more hist by simp
      moreover have "plugin_modules (snd (file_body rt root name lv1 st1)) = reg0 ++ added_plugins lv'"
        using more reg by simp
      moreover have "added_plugins lv' None = None"
        using more none by simp
      moreover have "plugin_modules (snd (file_body rt root name lv1 st1)) None = reg0 None"
        using more at_none by simp
      ultimately show ?thesis
        using Inr unfolding P_def by (simp only: sum.case) blast
    qed
  qed
  have log: "P (Inr lv1) (emit e st1)" if "P (Inr lv1) st1" for e lv1 st1
    using that by (auto simp: P_def map_add_def)
  have init: "P (Inr lv) st"
    using assms by (auto simp: P_def map_add_def)
  have "P (fst (for_each (location_body rt) locs lv st)) (snd (for_each (location_body rt) locs lv st))"
    by (rule scan_preserves [where P = P]) (use step log init in auto)
  then show ?thesis by (simp add: P_def)
qed

text \<open>Every directory the scan puts on \<^verbatim>\<open>sys.path\<close> passed the test of
  line 56.\<close>

lemma scan_sys_path:
  "\<exists>new. sys_path (snd (for_each (location_body rt) locs lv st)) = sys_path st @ new \<and>
     (\<forall>root\<in>set new. \<not> startswith (last (split_str os_path_sep root)) ''__'')"
proof -
  define P where "P = (\<lambda>(r :: error + locals) (s :: state).
     \<exists>new. sys_path s = sys_path st @ new \<and>
       (\<forall>root\<in>set new. \<not> startswith (last (split_str os_path_sep root)) ''__''))"
  have step: "P (fst (file_body rt root name lv1 st1)) (snd (file_body rt root name lv1 st1))"
    if "\<not> startswith (last (split_str os_path_sep root)) ''__''" "P (Inr lv1) st1"
    for root name lv1 st1
    using that by (auto simp: P_def file_body_sys_path)
  have log: "P (Inr lv1) (emit e st1)" if "P (Inr lv1) st1" for e lv1 st1
    using that by (simp add: P_def)
  have init: "P (Inr lv) st"
    by (simp add: P_def)
  have "P (fst (for_each (location_body rt) locs lv st)) (snd (for_each (location_body rt) locs lv st))"
    by (rule scan_preserves [where P = P]) (use step log init in auto)
  then show ?thesis by (simp add: P_def)
qed

subsection \<open>Splitting a string\<close>

lemma split_str_not_Nil [simp]: "split_str c s \<noteq> []"
  by (induction s) (simp_all split: list.splits)

lemma split_str_pieces: "c \<notin> set (concat (split_str c s))"
proof (induction s)
  case Nil
  show ?case by simp
next
  case (Cons x xs)
  then show ?case by (cases "split_str c xs") auto
qed

lemma split_str_join: "concat (map (\<lambda>w. w @ [c]) (split_str c s)) = s @ [c]"
proof (induction s)
  case Nil
  show ?case by simp
next
  case (Cons x xs)
  then show ?case by (cases "split_str c xs") auto
qed

text \<open>Splitting at an occurrence of the separator splits both sides.\<close>

lemma split_str_append:
  "split_str c (a @ c # b) = split_str c a @ split_str c b"
proof (induction a)
  case Nil
  show ?case by simp
next
  case (Cons x a)
  then show ?case by (cases "split_str c a") auto
qed

lemma split_str_no_separator: "c \<notin> set b \<Longrightarrow> split_str c b = [b]"
  by (induction b) auto

lemma last_split_str_append:
  "c \<notin> set b \<Longrightarrow> last (split_str c (a @ c # b)) = b"
  by (simp add: split_str_append split_str_no_separator)

text \<open>The path that \<^verbatim>\<open>os.walk\<close> gives a subdirectory ends in the
  subdirectory's name.\<close>

lemma last_split_str_os_path_join:
  assumes "os_path_sep \<notin> set n"
  shows "last (split_str os_path_sep (os_path_join path n)) = n"
proof -
  have n: "\<not> startswith n [os_path_sep]"
    using assms by (cases n) (auto simp: startswith_def)
  show ?thesis
  proof (cases "path = []")
    case True
    with n assms show ?thesis
      by (simp add: os_path_join_def split_str_no_separator)
  next
    case False
    show ?thesis
    proof (cases "endswith path [os_path_sep]")
      case True
      then have bl: "path = butlast path @ [os_path_sep]"
        by (cases path rule: rev_cases) (simp_all add: endswith_def)
      have "os_path_join path n = path @ n"
        using n True False by (simp add: os_path_join_def)
      also have "\<dots> = butlast path @ os_path_sep # n"
        using bl by (metis append.assoc append_Cons append_Nil)
      finally have "os_path_join path n = butlast path @ os_path_sep # n" .
      then show ?thesis
        using assms by (simp add: last_split_str_append)
    next
      case nosep: False
      with n False assms show ?thesis
        by (simp add: os_path_join_def last_split_str_append)
    qed
  qed
qed

text \<open>The walk of a directory holds the walk of each of its subdirectories, whatever
  their names.\<close>

lemma walk_dir_subdirectory:
  "(n, d) \<in> set subs \<Longrightarrow>
   set (walk_dir (os_path_join path n) d) \<subseteq> set (walk_dir path (Dir fs subs))"
  by force

subsection \<open>The set of plugin classes\<close>

lemma set_iteration_single:
  assumes "set_iteration_ok rt" and "set xs = {c}"
  shows "set_iteration rt xs = [c]"
proof -
  have s: "set (set_iteration rt xs) = {c}" and d: "distinct (set_iteration rt xs)"
    using assms by (simp_all add: set_iteration_ok_def)
  show ?thesis
  proof (cases "set_iteration rt xs")
    case Nil
    with s show ?thesis by simp
  next
    case (Cons y ys)
    with s have "y = c" by auto
    moreover have "ys = []"
    proof (cases ys)
      case Nil
      then show ?thesis .
    next
      case (Cons z zs)
      with s \<open>set_iteration rt xs = y # ys\<close> have "z = c" by auto
      with d \<open>set_iteration rt xs = y # ys\<close> \<open>y = c\<close> Cons show ?thesis by simp
    qed
    ultimately show ?thesis using Cons by simp
  qed
qed

subsection \<open>The registry after a scan\<close>

lemma load_plugins_from_path_dicts:
  "plugin_modules (snd (load_plugins_from_path rt locations token st)) None = plugin_modules st None
   \<and> (case fst (load_plugins_from_path rt locations token st) of
        Inl e \<Rightarrow> True
      | Inr added \<Rightarrow> added None = None \<and>
          plugin_modules (snd (load_plugins_from_path rt locations token st)) = plugin_modules st ++ added \<and>
          (\<exists>calls. add_plugin_calls (snd (load_plugins_from_path rt locations token st))
                     = add_plugin_calls st @ calls \<and>
             added = map_of (rev (map (\<lambda>c. (protocol c, c)) calls))))"
proof (cases "for_each (location_body rt) locations \<lparr>added_plugins = Map.empty, module = None\<rparr> st")
  case (Pair r st1)
  have inv: "plugin_modules st1 None = plugin_modules st None \<and>
     (case r of Inl e \<Rightarrow> True
      | Inr lv' \<Rightarrow> added_plugins lv' None = None \<and>
          plugin_modules st1 = plugin_modules st ++ added_plugins lv' \<and>
          (\<exists>calls. add_plugin_calls st1 = add_plugin_calls st @ calls \<and>
             added_plugins lv' = map_of (rev (map (\<lambda>c. (protocol c, c)) calls))))"
    using scan_dicts [of st "plugin_modules st" "\<lparr>added_plugins = Map.empty, module = None\<rparr>"
        "add_plugin_calls st" "[]" rt locations] Pair
    by (simp split: sum.splits)
  show ?thesis
  proof (cases r)
    case (Inl e)
    with Pair inv show ?thesis by (simp add: load_plugins_from_path_def)
  next
    case (Inr lv')
    with Pair inv show ?thesis by (auto simp: load_plugins_from_path_def map_add_def)
  qed
qed

subsection \<open>The variable \<^verbatim>\<open>module\<close> after one file\<close>


subsection \<open>Evaluating the example runs\<close>

lemmas scan_defs = load_plugins_from_path_def location_body_def walk_body_def file_body_def
  try_load_def register_from_def plugin_classes_def add_plugin_def emit_def os_walk_def
  initial_state_def DATA_PLUGIN_TOKEN_def startswith_def endswith_def os_path_join_def
  os_path_sep_def module_defining_def PyDMPlugin_def

text \<open>
  A valid plugin file followed by a broken one: the scan returns, and the log ends with
  the second registration of the valid file's class, in place of the broken file.
\<close>

lemma good_then_broken_registers_twice:
  "\<not> isl (fst (load_plugins_from_path rt_good_then_broken [''plugins''] DATA_PLUGIN_TOKEN
          (initial_state [])))
   \<and> logger (snd (load_plugins_from_path rt_good_then_broken [''plugins''] DATA_PLUGIN_TOKEN
          (initial_state [])))
     = [Info_Looking ''plugins'', Info_Trying ''good_plugin.py'',
        Warning_MoreThanOnePlugin (Some ''good''),
        Info_Trying ''broken_plugin.py'',
        Exception_Unable ''broken_plugin.py'' (Exception ''SyntaxError''),
        Warning_Replacing good_plugin good_plugin (Some ''good'')]"
proof -
  have "\<not> isl (fst (load_plugins_from_path rt_good_then_broken [''plugins''] DATA_PLUGIN_TOKEN
          (initial_state [])))"
    by code_simp
  moreover have "logger (snd (load_plugins_from_path rt_good_then_broken [''plugins'']
          DATA_PLUGIN_TOKEN (initial_state [])))
     = [Info_Looking ''plugins'', Info_Trying ''good_plugin.py'',
        Warning_MoreThanOnePlugin (Some ''good''),
        Info_Trying ''broken_plugin.py'',
        Exception_Unable ''broken_plugin.py'' (Exception ''SyntaxError''),
        Warning_Replacing good_plugin good_plugin (Some ''good'')]"
    by code_simp
  ultimately show ?thesis by blast
qed

text \<open>
  One location listed twice: the file is executed twice and makes two class objects, so
  the second registration is a conflict and replaces the class of the first.
\<close>

lemma same_file_loaded_twice_new_class:
  "filter is_warning (logger (snd (load_plugins_from_path rt_fresh_classes
      [''plugins'', ''plugins''] DATA_PLUGIN_TOKEN (initial_state []))))
     = [Warning_MoreThanOnePlugin (Some ''good''), Warning_MoreThanOnePlugin (Some ''good''),
        Warning_Replacing
          \<lparr>cls_id = 102, cls_name = ''GoodPlugin'', mro = [102, 0], protocol = Some ''good''\<rparr>
          \<lparr>cls_id = 101, cls_name = ''GoodPlugin'', mro = [101, 0], protocol = Some ''good''\<rparr>
          (Some ''good'')]"
  by code_simp

section \<open>The claims\<close>

subsection \<open>C1: a candidate file that fails to load\<close>

text \<open>
  Claim C1 says that a candidate file whose load raises is logged and skipped, and that the
  scan never raises because of it. The \<^verbatim>\<open>except\<close> block logs the exception and
  falls through to line 73, which reads \<^verbatim>\<open>module\<close>. When the broken file is the
  first candidate of the scan the variable is unbound: the scan of one location holding
  one broken candidate file ends in \<^verbatim>\<open>UnboundLocalError\<close>, after logging the
  file's exception.
\<close>

theorem broken_first_file_aborts_scan:
  "fst (load_plugins_from_path rt_broken_only [''plugins''] DATA_PLUGIN_TOKEN (initial_state []))
     = Inl UnboundLocalError
   \<and> logger (snd (load_plugins_from_path rt_broken_only [''plugins''] DATA_PLUGIN_TOKEN
        (initial_state [])))
     = [Info_Looking ''plugins'', Info_Trying ''broken_plugin.py'',
        Exception_Unable ''broken_plugin.py'' (Exception ''SyntaxError'')]"
  by (simp add: scan_defs rt_broken_only_def)

subsection \<open>C2: directories whose name starts with two underscores\<close>

text \<open>
  Claim C2 says that no file anywhere below a directory whose base name starts with
  \<^verbatim>\<open>__\<close> is a load candidate. Line 56 tests the directory at hand only, and the
  list of subdirectories that \<^verbatim>\<open>os.walk\<close> yields is never pruned.
  Counterexample for C2: \<^verbatim>\<open>plugins/__pycache__/sub/beta_plugin.py\<close> is below
  \<^verbatim>\<open>__pycache__\<close>; the scan puts its directory on \<^verbatim>\<open>sys.path\<close>, loads
  it and registers its class.
\<close>

theorem file_below_reserved_directory_loaded:
  "os_walk rt_reserved_dir ''plugins'' =
     [(''plugins'', [''__pycache__''], []),
      (''plugins/__pycache__'', [''sub''], [''alpha_plugin.py'']),
      (''plugins/__pycache__/sub'', [], [''beta_plugin.py''])]
   \<and> sys_path (snd (load_plugins_from_path rt_reserved_dir [''plugins''] DATA_PLUGIN_TOKEN
        (initial_state []))) = [''plugins/__pycache__/sub'']
   \<and> Info_Trying ''beta_plugin.py'' \<in> set (logger (snd (load_plugins_from_path rt_reserved_dir
        [''plugins''] DATA_PLUGIN_TOKEN (initial_state []))))
   \<and> plugin_modules (snd (load_plugins_from_path rt_reserved_dir [''plugins''] DATA_PLUGIN_TOKEN
        (initial_state []))) (Some ''beta'') = Some beta_plugin"
proof -
  have "os_walk rt_reserved_dir ''plugins'' =
     [(''plugins'', [''__pycache__''], []),
      (''plugins/__pycache__'', [''sub''], [''alpha_plugin.py'']),
      (''plugins/__pycache__/sub'', [], [''beta_plugin.py''])]"
    by code_simp
  moreover have "sys_path (snd (load_plugins_from_path rt_reserved_dir [''plugins'']
        DATA_PLUGIN_TOKEN (initial_state []))) = [''plugins/__pycache__/sub'']"
    by code_simp
  moreover have "Info_Trying ''beta_plugin.py'' \<in> set (logger (snd (load_plugins_from_path
        rt_reserved_dir [''plugins''] DATA_PLUGIN_TOKEN (initial_state []))))"
    by code_simp
  moreover have "plugin_modules (snd (load_plugins_from_path rt_reserved_dir [''plugins'']
        DATA_PLUGIN_TOKEN (initial_state []))) (Some ''beta'') = Some beta_plugin"
    by code_simp
  ultimately show ?thesis by blast
qed

text \<open>
  Claim C2 as amended. The test of line 56 is on the path of a directory as
  \<^verbatim>\<open>os.walk\<close> yields it: the directory is skipped when the piece of that path
  after its last \<^verbatim>\<open>/\<close> starts with \<^verbatim>\<open>__\<close>, and scanned otherwise.
  \<^item> Every load attempt appends the directory of the file to \<^verbatim>\<open>sys.path\<close>
    (line 64), and every path a scan appends fails the test: no file directly in a
    skipped directory is a load candidate.
  \<^item> For a skipped directory the body of the walk leaves the state and the local
    variables as they are; for any other it is the loop over the directory's files.
  \<^item> For a subdirectory reached by the walk the piece tested is the subdirectory's own
    name.
  \<^item> For a location the piece tested is what follows the last \<^verbatim>\<open>/\<close> of the
    string given: for a string that ends in \<^verbatim>\<open>/\<close> it is empty, and the
    location is scanned whatever its name.
  \<^item> The skip is not inherited: the walk of a directory holds the walk of each of its
    subdirectories, whatever the names.
\<close>

theorem reserved_directory_files_skipped:
  "(\<exists>new. sys_path (snd (load_plugins_from_path rt locations token st)) = sys_path st @ new \<and>
      (\<forall>root\<in>set new. \<not> startswith (last (split_str os_path_sep root)) ''__''))
   \<and> (startswith (last (split_str os_path_sep root)) ''__''
        \<longrightarrow> walk_body rt (root, dirs, files) lv st = (Inr lv, st))
   \<and> (\<not> startswith (last (split_str os_path_sep root)) ''__''
        \<longrightarrow> walk_body rt (root, dirs, files) lv st
            = for_each (file_body rt root) files lv (emit (Info_Looking root) st))
   \<and> (os_path_sep \<notin> set n
        \<longrightarrow> last (split_str os_path_sep (os_path_join path n)) = n)
   \<and> last (split_str os_path_sep (loc @ [os_path_sep])) = []
   \<and> ((n, d) \<in> set subs
        \<longrightarrow> set (walk_dir (os_path_join path n) d) \<subseteq> set (walk_dir path (Dir fs subs)))"
proof -
  have "snd (load_plugins_from_path rt locations token st) =
        snd (for_each (location_body rt) locations \<lparr>added_plugins = Map.empty, module = None\<rparr> st)"
    by (simp add: load_plugins_from_path_def split: prod.splits sum.splits)
  then have appended: "\<exists>new. sys_path (snd (load_plugins_from_path rt locations token st))
        = sys_path st @ new \<and>
      (\<forall>root\<in>set new. \<not> startswith (last (split_str os_path_sep root)) ''__'')"
    using scan_sys_path [of rt locations "\<lparr>added_plugins = Map.empty, module = None\<rparr>" st]
    by simp
  have trailing: "last (split_str os_path_sep (loc @ [os_path_sep])) = []"
    using last_split_str_append [of os_path_sep "[]" loc] by simp
  show ?thesis
    using appended trailing last_split_str_os_path_join [of n path]
      walk_dir_subdirectory [of n d subs path fs]
    by (simp add: walk_body_def)
qed

text \<open>
  Witness for C2 as amended, on the directory tree of the counterexample and on a location
  given as \<^verbatim>\<open>__res/\<close>, whose file is loaded and registered.
\<close>

theorem reserved_directory_files_skipped_witness:
  "sys_path (snd (load_plugins_from_path rt_reserved_dir [''plugins''] DATA_PLUGIN_TOKEN
      (initial_state []))) = sys_path (initial_state []) @ [''plugins/__pycache__/sub'']
   \<and> \<not> startswith (last (split_str os_path_sep ''plugins/__pycache__/sub'')) ''__''
   \<and> startswith (last (split_str os_path_sep ''plugins/__pycache__'')) ''__''
   \<and> walk_body rt_reserved_dir (''plugins/__pycache__'', [''sub''], [''alpha_plugin.py''])
        \<lparr>added_plugins = Map.empty, module = None\<rparr> (initial_state [])
       = (Inr \<lparr>added_plugins = Map.empty, module = None\<rparr>, initial_state [])
   \<and> os_path_sep \<notin> set ''sub''
   \<and> last (split_str os_path_sep (os_path_join ''plugins/__pycache__'' ''sub'')) = ''sub''
   \<and> last (split_str os_path_sep ''__res/'') = []
   \<and> sys_path (snd (load_plugins_from_path rt_trailing_separator [''__res/'']
        DATA_PLUGIN_TOKEN (initial_state []))) = [''__res/'']
   \<and> plugin_modules (snd (load_plugins_from_path rt_trailing_separator [''__res/'']
        DATA_PLUGIN_TOKEN (initial_state []))) (Some ''good'') = Some good_plugin
   \<and> (''plugins/__pycache__/sub'', [], [''beta_plugin.py''])
        \<in> set (walk_dir ''plugins''
             (Dir [] [(''__pycache__'',
                Dir [''alpha_plugin.py''] [(''sub'', Dir [''beta_plugin.py''] [])])]))"
proof -
  let ?lv = "\<lparr>added_plugins = Map.empty, module = None\<rparr>"
  have sp: "sys_path (snd (load_plugins_from_path rt_reserved_dir [''plugins'']
      DATA_PLUGIN_TOKEN (initial_state [])))
      = sys_path (initial_state []) @ [''plugins/__pycache__/sub'']"
    by code_simp
  have sub: "\<not> startswith (last (split_str os_path_sep ''plugins/__pycache__/sub'')) ''__''"
    by code_simp
  have cache: "startswith (last (split_str os_path_sep ''plugins/__pycache__'')) ''__''"
    by code_simp
  have name: "os_path_sep \<notin> set ''sub''"
    by (simp add: os_path_sep_def)
  have res: "''__res'' @ [os_path_sep] = ''__res/''"
    by (simp add: os_path_sep_def)
  have loaded: "sys_path (snd (load_plugins_from_path rt_trailing_separator [''__res/'']
        DATA_PLUGIN_TOKEN (initial_state []))) = [''__res/'']"
    by code_simp
  have registered: "plugin_modules (snd (load_plugins_from_path rt_trailing_separator
        [''__res/''] DATA_PLUGIN_TOKEN (initial_state []))) (Some ''good'') = Some good_plugin"
    by code_simp
  have walked: "(''plugins/__pycache__/sub'', [], [''beta_plugin.py''])
        \<in> set (walk_dir ''plugins''
             (Dir [] [(''__pycache__'',
                Dir [''alpha_plugin.py''] [(''sub'', Dir [''beta_plugin.py''] [])])]))"
    by code_simp
  note general = reserved_directory_files_skipped [where rt = rt_reserved_dir
        and locations = "[''plugins'']" and token = DATA_PLUGIN_TOKEN
        and st = "initial_state []" and root = "''plugins/__pycache__''"
        and dirs = "[''sub'']" and files = "[''alpha_plugin.py'']" and lv = ?lv
        and n = "''sub''" and path = "''plugins/__pycache__''" and loc = "''__res''"
        and d = "Dir [''beta_plugin.py''] []" and subs = "[(''sub'', Dir [''beta_plugin.py''] [])]"
        and fs = "[''alpha_plugin.py'']"]
  from general cache
  have skipped: "walk_body rt_reserved_dir (''plugins/__pycache__'', [''sub''], [''alpha_plugin.py''])
        ?lv (initial_state []) = (Inr ?lv, initial_state [])"
    by blast
  from general name
  have own_name: "last (split_str os_path_sep (os_path_join ''plugins/__pycache__'' ''sub''))
        = ''sub''"
    by blast
  from general
  have "last (split_str os_path_sep (''__res'' @ [os_path_sep])) = []"
    by blast
  then have trailing: "last (split_str os_path_sep ''__res/'') = []"
    unfolding res .
  show ?thesis
    using sp sub cache skipped name own_name trailing loaded registered walked
    by blast
qed

subsection \<open>C3: more than one plugin class in a file\<close>

text \<open>
  Claim C3 says that of several plugin classes in one file the one whose name sorts first
  is chosen, as the warning of lines 82 to 85 announces ("in alphabetical order").
  \<^verbatim>\<open>inspect.getmembers\<close> lists the members by name, but line 78 turns the list
  into a set and back, and \<^verbatim>\<open>classes[0]\<close> is the first class in the set's
  order. In a run where the set lists \<^verbatim>\<open>BetaPlugin\<close> before
  \<^verbatim>\<open>AlphaPlugin\<close> the scan registers \<^verbatim>\<open>BetaPlugin\<close>, names it in the
  warning and leaves \<^verbatim>\<open>AlphaPlugin\<close> out.
\<close>

theorem two_classes_set_order_decides:
  "set_iteration_ok rt_two_classes
   \<and> plugin_classes (module_defining [alpha_plugin, beta_plugin]) = [alpha_plugin, beta_plugin]
   \<and> \<not> isl (fst (load_plugins_from_path rt_two_classes [''plugins''] DATA_PLUGIN_TOKEN
          (initial_state [])))
   \<and> plugin_modules (snd (load_plugins_from_path rt_two_classes [''plugins''] DATA_PLUGIN_TOKEN
          (initial_state []))) (Some ''alpha'') = None
   \<and> plugin_modules (snd (load_plugins_from_path rt_two_classes [''plugins''] DATA_PLUGIN_TOKEN
          (initial_state []))) (Some ''beta'') = Some beta_plugin
   \<and> logger (snd (load_plugins_from_path rt_two_classes [''plugins''] DATA_PLUGIN_TOKEN
          (initial_state [])))
     = [Info_Looking ''plugins'', Info_Trying ''both_plugin.py'',
        Warning_MoreThanOneSubclass ''both_plugin.py'' ''BetaPlugin'',
        Warning_MoreThanOnePlugin (Some ''beta'')]"
proof -
  have "set_iteration_ok rt_two_classes"
    by (simp add: set_iteration_ok_def rt_two_classes_def)
  moreover have "plugin_classes (module_defining [alpha_plugin, beta_plugin])
                   = [alpha_plugin, beta_plugin]"
    by code_simp
  moreover have "\<not> isl (fst (load_plugins_from_path rt_two_classes [''plugins'']
          DATA_PLUGIN_TOKEN (initial_state [])))"
    by code_simp
  moreover have "plugin_modules (snd (load_plugins_from_path rt_two_classes [''plugins'']
          DATA_PLUGIN_TOKEN (initial_state []))) (Some ''alpha'') = None"
    by code_simp
  moreover have "plugin_modules (snd (load_plugins_from_path rt_two_classes [''plugins'']
          DATA_PLUGIN_TOKEN (initial_state []))) (Some ''beta'') = Some beta_plugin"
    by code_simp
  moreover have "logger (snd (load_plugins_from_path rt_two_classes [''plugins'']
          DATA_PLUGIN_TOKEN (initial_state [])))
     = [Info_Looking ''plugins'', Info_Trying ''both_plugin.py'',
        Warning_MoreThanOneSubclass ''both_plugin.py'' ''BetaPlugin'',
        Warning_MoreThanOnePlugin (Some ''beta'')]"
    by code_simp
  ultimately show ?thesis by blast
qed

subsection \<open>C4: registering the same plugin again\<close>

text \<open>
  Claim C4 says that a second \<^verbatim>\<open>add_plugin\<close> of the identical class changes
  neither the registry nor the log. It fails on the log: \<^verbatim>\<open>add_plugin\<close>
  warns whenever the protocol is a key of \<^verbatim>\<open>plugin_modules\<close>, also when the
  entry is the plugin itself. Counterexample for C4: from the empty registry the first
  call logs nothing and the second logs a warning.
\<close>

theorem add_plugin_twice_logs_again:
  "plugin_modules (add_plugin good_plugin (add_plugin good_plugin (initial_state [])))
     = plugin_modules (add_plugin good_plugin (initial_state []))
   \<and> logger (add_plugin good_plugin (initial_state [])) = []
   \<and> logger (add_plugin good_plugin (add_plugin good_plugin (initial_state [])))
       = [Warning_Replacing good_plugin good_plugin (Some ''good'')]"
  by (simp add: logger_add_plugin initial_state_def good_plugin_def)

text \<open>
  Claim C4 as amended: a second \<^verbatim>\<open>add_plugin\<close> of the identical class leaves
  the registry and \<^verbatim>\<open>sys.path\<close> as the first call left them, and logs exactly
  one more event, the warning that the plugin replaces itself.
\<close>

theorem add_plugin_same_plugin_again:
  "plugin_modules (add_plugin p (add_plugin p st)) = plugin_modules (add_plugin p st)
   \<and> sys_path (add_plugin p (add_plugin p st)) = sys_path (add_plugin p st)
   \<and> logger (add_plugin p (add_plugin p st)) =
       logger (add_plugin p st) @ [Warning_Replacing p p (protocol p)]"
  by (simp add: logger_add_plugin)

subsection \<open>C5: two files for one protocol\<close>

text \<open>
  Claim C5 says that two files defining distinct plugin classes for one protocol leave the
  later class in the registry and exactly one conflict warning in the log. The registry
  does hold the later class and the scan returns, but from an empty registry the log holds
  three warnings: "More than one plugin is attempting to register" for the first file,
  when no plugin was registered yet, the same again for the second file, and the
  "Replacing" warning of \<^verbatim>\<open>add_plugin\<close>.
\<close>

theorem same_protocol_two_files_three_warnings:
  "\<not> isl (fst (load_plugins_from_path rt_same_protocol [''plugins''] DATA_PLUGIN_TOKEN
          (initial_state [])))
   \<and> plugin_modules (snd (load_plugins_from_path rt_same_protocol [''plugins''] DATA_PLUGIN_TOKEN
          (initial_state []))) (Some ''x'') = Some x2_plugin
   \<and> filter is_warning (logger (snd (load_plugins_from_path rt_same_protocol [''plugins'']
          DATA_PLUGIN_TOKEN (initial_state []))))
     = [Warning_MoreThanOnePlugin (Some ''x''), Warning_MoreThanOnePlugin (Some ''x''),
        Warning_Replacing x2_plugin x1_plugin (Some ''x'')]"
proof -
  have "\<not> isl (fst (load_plugins_from_path rt_same_protocol [''plugins''] DATA_PLUGIN_TOKEN
          (initial_state [])))"
    by code_simp
  moreover have "plugin_modules (snd (load_plugins_from_path rt_same_protocol [''plugins'']
          DATA_PLUGIN_TOKEN (initial_state []))) (Some ''x'') = Some x2_plugin"
    by code_simp
  moreover have "filter is_warning (logger (snd (load_plugins_from_path rt_same_protocol
          [''plugins''] DATA_PLUGIN_TOKEN (initial_state []))))
     = [Warning_MoreThanOnePlugin (Some ''x''), Warning_MoreThanOnePlugin (Some ''x''),
        Warning_Replacing x2_plugin x1_plugin (Some ''x'')]"
    by code_simp
  ultimately show ?thesis by blast
qed

subsection \<open>C6: a plugin class without protocol\<close>

text \<open>
  Claim C6: a scan never registers under the key \<^verbatim>\<open>None\<close>. Whatever the scan
  returns or raises, the registry's entry at \<^verbatim>\<open>None\<close> is what it was before
  the call; the returned dictionary, which gets a key with every registration of the call,
  has no key \<^verbatim>\<open>None\<close>; and a module whose only plugin class has no protocol
  changes neither the state nor the local variables.
\<close>

theorem null_protocol_never_registered:
  "plugin_modules (snd (load_plugins_from_path rt locations token st)) None = plugin_modules st None
   \<and> (\<forall>added. fst (load_plugins_from_path rt locations token st) = Inr added \<longrightarrow> added None = None)
   \<and> (set_iteration_ok rt \<and> set (plugin_classes m) = {c} \<and> protocol c = None
        \<longrightarrow> register_from rt name m lv st = (lv, st))"
proof -
  have "register_from rt name m lv st = (lv, st)"
    if "set_iteration_ok rt" "set (plugin_classes m) = {c}" "protocol c = None"
    using that set_iteration_single [of rt "plugin_classes m" c]
    by (simp add: register_from_null)
  then show ?thesis
    using load_plugins_from_path_dicts [of rt locations token st] by auto
qed

text \<open>
  Witness for C6: a file whose only class has no protocol, and a valid file after it.
\<close>

theorem null_protocol_never_registered_witness:
  "plugin_modules (snd (load_plugins_from_path rt_null_protocol [''plugins''] DATA_PLUGIN_TOKEN
      (initial_state []))) None = None
   \<and> fst (load_plugins_from_path rt_null_protocol [''plugins''] DATA_PLUGIN_TOKEN
        (initial_state []))
       = Inr (projr (fst (load_plugins_from_path rt_null_protocol [''plugins''] DATA_PLUGIN_TOKEN
          (initial_state []))))
   \<and> projr (fst (load_plugins_from_path rt_null_protocol [''plugins''] DATA_PLUGIN_TOKEN
        (initial_state []))) None = None
   \<and> set_iteration_ok rt_null_protocol
   \<and> set (plugin_classes (module_defining [null_plugin])) = {null_plugin}
   \<and> protocol null_plugin = None
   \<and> register_from rt_null_protocol ''null_plugin.py'' (module_defining [null_plugin])
        \<lparr>added_plugins = Map.empty, module = Some (module_defining [null_plugin])\<rparr>
        (initial_state [])
       = (\<lparr>added_plugins = Map.empty, module = Some (module_defining [null_plugin])\<rparr>,
          initial_state [])"
proof -
  have returns: "\<not> isl (fst (load_plugins_from_path rt_null_protocol [''plugins'']
          DATA_PLUGIN_TOKEN (initial_state [])))"
    by code_simp
  have ok: "set_iteration_ok rt_null_protocol"
    by (simp add: set_iteration_ok_def rt_null_protocol_def)
  have classes: "set (plugin_classes (module_defining [null_plugin])) = {null_plugin}"
    by (simp add: plugin_classes_def module_defining_def null_plugin_def PyDMPlugin_def)
  have null: "protocol null_plugin = None"
    by (simp add: null_plugin_def)
  have start: "plugin_modules (initial_state []) None = None"
    by (simp add: initial_state_def)
  show ?thesis
    using null_protocol_never_registered [of rt_null_protocol "[''plugins'']" DATA_PLUGIN_TOKEN
        "initial_state []" "module_defining [null_plugin]" null_plugin "''null_plugin.py''"
        "\<lparr>added_plugins = Map.empty, module = Some (module_defining [null_plugin])\<rparr>"]
      returns ok classes null start
    by (auto simp: isl_def)
qed

subsection \<open>C7: the locations scanned at import\<close>

text \<open>
  Claim C7: the locations scanned at import are the module's own directory followed by
  the pieces of \<^verbatim>\<open>PYDM_DATA_PLUGINS_PATH\<close> split at \<^verbatim>\<open>os.pathsep\<close>, in
  order; with the variable unset the list is the module's directory alone, and that
  directory is always first. The pieces are those of the string: no piece holds the
  separator, and the pieces, each followed by the separator, make up the string followed
  by the separator. The top-level code scans exactly this list.
\<close>

theorem startup_locations_built_in_first:
  "startup_locations None pathsep plugin_dir = [plugin_dir]
   \<and> startup_locations (Some path) pathsep plugin_dir = plugin_dir # split_str pathsep path
   \<and> hd (startup_locations getenv pathsep plugin_dir) = plugin_dir
   \<and> concat (map (\<lambda>w. w @ [pathsep]) (split_str pathsep path)) = path @ [pathsep]
   \<and> pathsep \<notin> set (concat (split_str pathsep path))
   \<and> module_top_level rt getenv pathsep plugin_dir st =
       load_plugins_from_path rt (startup_locations getenv pathsep plugin_dir)
         DATA_PLUGIN_TOKEN
         (emit (Info_Banner (replicate 80 (CHR ''*'')))
           (emit (Info_Banner ''* Loading PyDM Data Plugins'')
             (emit (Info_Banner (replicate 80 (CHR ''*''))) st)))"
  using split_str_pieces [of pathsep path]
  by (simp add: startup_locations_def module_top_level_def Let_def split_str_join)

subsection \<open>C8: the returned dictionary\<close>

text \<open>
  Claim C8: when \<^verbatim>\<open>load_plugins_from_path\<close> returns, what it returns is
  exactly what it registered. Let \<open>calls\<close> be the calls of
  \<^verbatim>\<open>add_plugin\<close> made during the call, in order. The returned dictionary maps
  the protocol of each of them, and nothing else, to the class of the last call for that
  protocol (\<open>map_of\<close> takes the first pair of the reversed list); the registry is the
  registry before the call overridden by the returned dictionary; and the returned
  dictionary is a sub-mapping of the registry.
\<close>

theorem returned_mapping_is_what_was_registered:
  assumes "load_plugins_from_path rt locations token st = (Inr added, st')"
  shows "\<exists>calls. add_plugin_calls st' = add_plugin_calls st @ calls
           \<and> added = map_of (rev (map (\<lambda>c. (protocol c, c)) calls))
           \<and> dom added = protocol ` set calls
           \<and> plugin_modules st' = plugin_modules st ++ added
           \<and> added \<subseteq>\<^sub>m plugin_modules st'"
proof -
  from load_plugins_from_path_dicts [of rt locations token st] assms
  obtain calls where calls: "add_plugin_calls st' = add_plugin_calls st @ calls"
      and added: "added = map_of (rev (map (\<lambda>c. (protocol c, c)) calls))"
      and reg: "plugin_modules st' = plugin_modules st ++ added"
    by auto
  have "dom added = protocol ` set calls"
    unfolding added by (simp add: dom_map_of_conv_image_fst image_image)
  moreover have "added \<subseteq>\<^sub>m plugin_modules st'"
    unfolding reg by (simp add: map_le_map_add)
  ultimately show ?thesis
    using calls added reg by blast
qed

text \<open>
  Witness for C8: a scan that starts with the protocol \<^verbatim>\<open>x\<close> in the registry
  and registers one class. The class is returned under its protocol; the entry for
  \<^verbatim>\<open>x\<close>, which the call did not register, is in the registry and not in the
  returned dictionary.
\<close>

theorem returned_mapping_is_what_was_registered_witness:
  "load_plugins_from_path rt_null_protocol [''plugins''] DATA_PLUGIN_TOKEN
       (add_plugin x1_plugin (initial_state []))
     = (Inr (projr (fst (load_plugins_from_path rt_null_protocol [''plugins'']
               DATA_PLUGIN_TOKEN (add_plugin x1_plugin (initial_state []))))),
        snd (load_plugins_from_path rt_null_protocol [''plugins''] DATA_PLUGIN_TOKEN
               (add_plugin x1_plugin (initial_state []))))
   \<and> add_plugin_calls (snd (load_plugins_from_path rt_null_protocol [''plugins'']
        DATA_PLUGIN_TOKEN (add_plugin x1_plugin (initial_state []))))
       = add_plugin_calls (add_plugin x1_plugin (initial_state [])) @ [good_plugin]
   \<and> projr (fst (load_plugins_from_path rt_null_protocol [''plugins''] DATA_PLUGIN_TOKEN
        (add_plugin x1_plugin (initial_state []))))
       = map_of (rev (map (\<lambda>c. (protocol c, c)) [good_plugin]))
   \<and> dom (projr (fst (load_plugins_from_path rt_null_protocol [''plugins''] DATA_PLUGIN_TOKEN
        (add_plugin x1_plugin (initial_state []))))) = {Some ''good''}
   \<and> plugin_modules (snd (load_plugins_from_path rt_null_protocol [''plugins'']
        DATA_PLUGIN_TOKEN (add_plugin x1_plugin (initial_state [])))) (Some ''x'')
       = Some x1_plugin
   \<and> plugin_modules (snd (load_plugins_from_path rt_null_protocol [''plugins'']
        DATA_PLUGIN_TOKEN (add_plugin x1_plugin (initial_state []))))
       = plugin_modules (add_plugin x1_plugin (initial_state []))
         ++ projr (fst (load_plugins_from_path rt_null_protocol [''plugins''] DATA_PLUGIN_TOKEN
              (add_plugin x1_plugin (initial_state []))))
   \<and> projr (fst (load_plugins_from_path rt_null_protocol [''plugins''] DATA_PLUGIN_TOKEN
        (add_plugin x1_plugin (initial_state []))))
       \<subseteq>\<^sub>m plugin_modules (snd (load_plugins_from_path rt_null_protocol [''plugins'']
            DATA_PLUGIN_TOKEN (add_plugin x1_plugin (initial_state []))))"
proof -
  let ?st = "add_plugin x1_plugin (initial_state [])"
  let ?run = "load_plugins_from_path rt_null_protocol [''plugins''] DATA_PLUGIN_TOKEN ?st"
  have "\<not> isl (fst ?run)"
    by code_simp
  then have returns: "?run = (Inr (projr (fst ?run)), snd ?run)"
    by (simp add: prod_eq_iff)
  have history: "add_plugin_calls (snd ?run) = add_plugin_calls ?st @ [good_plugin]"
    by code_simp
  have kept: "plugin_modules (snd ?run) (Some ''x'') = Some x1_plugin"
    by code_simp
  have proto: "protocol good_plugin = Some ''good''"
    by (simp add: good_plugin_def)
  from returned_mapping_is_what_was_registered [OF returns]
  obtain calls where calls: "add_plugin_calls (snd ?run) = add_plugin_calls ?st @ calls"
      and added: "projr (fst ?run) = map_of (rev (map (\<lambda>c. (protocol c, c)) calls))"
      and keys: "dom (projr (fst ?run)) = protocol ` set calls"
      and reg: "plugin_modules (snd ?run) = plugin_modules ?st ++ projr (fst ?run)"
      and sub: "projr (fst ?run) \<subseteq>\<^sub>m plugin_modules (snd ?run)"
    by blast
  from calls history have "calls = [good_plugin]"
    by simp
  with added keys proto
  have "projr (fst ?run) = map_of (rev (map (\<lambda>c. (protocol c, c)) [good_plugin]))"
    and "dom (projr (fst ?run)) = {Some ''good''}"
    by simp_all
  with returns history kept reg sub show ?thesis
    by blast
qed

subsection \<open>C9: what is inspected after a failed load\<close>



subsection \<open>C10: the conflict warning\<close>

text \<open>
  Claim C10: when lines 87 to 97 register the class \<open>c\<close> for the protocol \<open>p\<close>,
  the warning "More than one plugin is attempting to register" is among the events logged
  exactly when the registry's entry for \<open>p\<close> is not \<open>c\<close> itself. With no entry
  for \<open>p\<close> the warning is logged, and it is the last event: every registration of a
  new protocol warns of a conflict.
\<close>

theorem conflict_warning_unless_same_entry:
  assumes "set_iteration rt (plugin_classes m) = c # cs" and "protocol c = Some p"
  shows "(Warning_MoreThanOnePlugin (Some p)
            \<in> set (drop (length (logger st)) (logger (snd (register_from rt name m lv st)))))
          = (plugin_modules st (Some p) \<noteq> Some c)
       \<and> (plugin_modules st (Some p) = None \<longrightarrow>
            logger (snd (register_from rt name m lv st)) =
              logger st
              @ (if cs = [] then [] else [Warning_MoreThanOneSubclass name (cls_name c)])
              @ [Warning_MoreThanOnePlugin (Some p)])"
  using assms by (auto simp: register_from_some split: option.splits)

text \<open>
  Witness for C10: the first registration into an empty registry.
\<close>

theorem conflict_warning_unless_same_entry_witness:
  "set_iteration rt_good_then_broken (plugin_classes (module_defining [good_plugin]))
     = [good_plugin]
   \<and> protocol good_plugin = Some ''good''
   \<and> plugin_modules (initial_state []) (Some ''good'') = None
   \<and> logger (snd (register_from rt_good_then_broken ''good_plugin.py''
         (module_defining [good_plugin])
         \<lparr>added_plugins = Map.empty, module = Some (module_defining [good_plugin])\<rparr>
         (initial_state [])))
       = [Warning_MoreThanOnePlugin (Some ''good'')]"
proof -
  have classes: "set_iteration rt_good_then_broken (plugin_classes (module_defining [good_plugin]))
     = [good_plugin]"
    by code_simp
  have proto: "protocol good_plugin = Some ''good''"
    by (simp add: good_plugin_def)
  have fresh: "plugin_modules (initial_state []) (Some ''good'') = None"
    by (simp add: initial_state_def)
  show ?thesis
    using conflict_warning_unless_same_entry [OF classes proto, of "initial_state []"
        "''good_plugin.py''"
        "\<lparr>added_plugins = Map.empty, module = Some (module_defining [good_plugin])\<rparr>"]
      classes proto fresh
    by (simp add: initial_state_def)
qed

end
